theory Spec2Isabelle
  imports Complex_Main "HOL-Library.Sublist" "HOL-Library.Multiset" "HOL-Library.Log_Nat"
begin

section \<open>Data model\<close>

text \<open>
  The rows of the local store, as the screens read them (\<^verbatim>\<open>@/db/types\<close>).
  Numbers of the source are JavaScript numbers, that is binary64 doubles. Identifiers,
  indices, counts, flags and times in milliseconds are integers far below \<open>2^53\<close>,
  which doubles hold exactly; they are integers here. A quotient is rounded, and is
  modelled with its rounding where the source computes one.
\<close>

record lesson =
  lesson_id :: int
  subject_id :: int
  title :: string
  is_completed :: int

record exercise =
  exercise_id :: int
  exercise_lesson_id :: int
  correct_index :: int
  difficulty :: int

text \<open>
  An entry of \<^verbatim>\<open>answers: (number | null)[]\<close>, and the value an array read gives:
  \<^verbatim>\<open>undefined\<close> for a read outside the array.
\<close>

datatype answer = Undefined | Null | Chosen int

record attempt =
  attempt_exercise_id :: int
  selected_index :: answer
  is_correct :: bool
  time_spent_seconds :: int
  created_at :: int

section \<open>Binary64 arithmetic\<close>




section \<open>Subject progress (SubjectDetailScreen)\<close>



section \<open>The attempt log (store)\<close>

text \<open>
  Modelled from the spec: \<^verbatim>\<open>saveAttempt\<close> of \<^verbatim>\<open>@/db/database\<close> is not among the
  sources. The spec gives \<^verbatim>\<open>recordAttempt(exerciseId, chosenIndex, isCorrect,
  timeSpentSeconds) -> void\<close>, a single insert into an append-only log whose rows are
  never updated or deleted. The store stamps the row; \<open>stamp n\<close> is the time at which
  the row appended to a log of \<open>n\<close> rows is written.
\<close>

definition saveAttempt ::
  "(nat \<Rightarrow> int) \<Rightarrow> attempt list \<Rightarrow> int \<Rightarrow> answer \<Rightarrow> bool \<Rightarrow> int \<Rightarrow> attempt list" where
  "saveAttempt stamp db exerciseId selectedIndex isCorrect timeSpent =
     db @ [\<lparr>attempt_exercise_id = exerciseId, selected_index = selectedIndex,
            is_correct = isCorrect, time_spent_seconds = timeSpent,
            created_at = stamp (length db)\<rparr>]"

text \<open>The arguments of the call that wrote a row.\<close>

definition row_of :: "attempt \<Rightarrow> int \<times> answer \<times> bool \<times> int" where
  "row_of a = (attempt_exercise_id a, selected_index a, is_correct a, time_spent_seconds a)"

section \<open>Mock exam (MockExamScreen)\<close>

record mock_state =
  exercises :: "exercise list"
  answers :: "answer list"
  currentIndex :: nat
  timeLeft :: int
  isComplete :: bool
  isLoading :: bool
  showReview :: bool

definition MOCK_EXAM_QUESTIONS :: nat where
  "MOCK_EXAM_QUESTIONS = 30"

definition MOCK_EXAM_DURATION :: int where
  "MOCK_EXAM_DURATION = 60 * 60"

definition initial_mock_state :: mock_state where
  "initial_mock_state =
     \<lparr>exercises = [], answers = [], currentIndex = 0, timeLeft = MOCK_EXAM_DURATION,
      isComplete = False, isLoading = True, showReview = False\<rparr>"

text \<open>\<^verbatim>\<open>answers[i]\<close>: a read past the end of a JavaScript array gives \<^verbatim>\<open>undefined\<close>.\<close>

definition answer_at :: "answer list \<Rightarrow> nat \<Rightarrow> answer" where
  "answer_at as i = (if i < length as then as ! i else Undefined)"

text \<open>
  \<^verbatim>\<open>loadExercises\<close>, given the list \<^verbatim>\<open>getRandomExercises(MOCK_EXAM_QUESTIONS)\<close>
  returned (at most 30 exercises): \<^verbatim>\<open>setAnswers(new Array(exercisesList.length).fill(null))\<close>.
\<close>

definition loadExercises :: "exercise list \<Rightarrow> mock_state \<Rightarrow> mock_state" where
  "loadExercises exercisesList st =
     st\<lparr>exercises := exercisesList,
        answers := replicate (length exercisesList) Null,
        isLoading := False\<rparr>"

text \<open>
  \<^verbatim>\<open>newAnswers[currentIndex] = index\<close>: a write past the end extends the array, the
  slots between read as \<^verbatim>\<open>undefined\<close>.
\<close>

definition handleSelectOption :: "int \<Rightarrow> mock_state \<Rightarrow> mock_state" where
  "handleSelectOption index st =
     st\<lparr>answers :=
          (if currentIndex st < length (answers st)
           then (answers st)[currentIndex st := Chosen index]
           else answers st @ replicate (currentIndex st - length (answers st)) Undefined
                  @ [Chosen index])\<rparr>"

text \<open>
  The loop of \<^verbatim>\<open>handleFinish\<close>, over the indices \<open>0 ..< exercises.length\<close>:
  \<^verbatim>\<open>if (answer !== null) { const isCorrect = answer === exercise.correct_index;
  await saveAttempt(exercise.id, answer, isCorrect, 0); }\<close>
\<close>

fun finish_loop ::
  "(nat \<Rightarrow> int) \<Rightarrow> exercise list \<Rightarrow> answer list \<Rightarrow> nat list \<Rightarrow> attempt list \<Rightarrow> attempt list" where
  "finish_loop stamp exs as [] db = db"
| "finish_loop stamp exs as (i # is) db =
     (let exercise = exs ! i; answer = answer_at as i in
      if answer \<noteq> Null
      then finish_loop stamp exs as is
             (saveAttempt stamp db (exercise_id exercise) answer
                (answer = Chosen (correct_index exercise)) 0)
      else finish_loop stamp exs as is db)"

text \<open>\<^verbatim>\<open>handleFinish\<close> has no test of \<^verbatim>\<open>isComplete\<close>: it writes, then sets the flag.\<close>

definition handleFinish ::
  "(nat \<Rightarrow> int) \<Rightarrow> mock_state \<times> attempt list \<Rightarrow> mock_state \<times> attempt list" where
  "handleFinish stamp s =
     (case s of (st, db) \<Rightarrow>
        (st\<lparr>isComplete := True\<rparr>,
         finish_loop stamp (exercises st) (answers st) [0..<length (exercises st)] db))"

definition answeredCount :: "mock_state \<Rightarrow> nat" where
  "answeredCount st = length (filter (\<lambda>a. a \<noteq> Null) (answers st))"

text \<open>
  \<^verbatim>\<open>exercises.reduce((count, exercise, index) =>
     count + (answers[index] === exercise.correct_index ? 1 : 0), 0)\<close>
\<close>

definition correctCount :: "mock_state \<Rightarrow> nat" where
  "correctCount st =
     foldl (\<lambda>count index.
              count + (if answer_at (answers st) index
                            = Chosen (correct_index (exercises st ! index))
                       then 1 else 0))
       0 [0..<length (exercises st)]"

text \<open>
  The routine above is one call of \<^verbatim>\<open>handleFinish\<close> run to its end without
  anything in between. On the screen a call is not atomic, and the handler a timer
  calls is not the current one. The rest of this section models the screen with its
  countdown effect and the calls in flight.

  The countdown effect has the dependencies \<^verbatim>\<open>[isLoading, isComplete, timeLeft]\<close>. It
  installs its interval only under \<^verbatim>\<open>!isLoading && !isComplete && timeLeft > 0\<close>,
  and only when a render changes one of the three; the interval then calls the
  \<^verbatim>\<open>handleFinish\<close> of that render, which reads the \<^verbatim>\<open>exercises\<close> and
  \<^verbatim>\<open>answers\<close> of that render.
\<close>

definition timer_armed :: "mock_state \<Rightarrow> bool" where
  "timer_armed st = (\<not> isLoading st \<and> \<not> isComplete st \<and> timeLeft st > 0)"

definition effect_deps :: "mock_state \<Rightarrow> bool \<times> bool \<times> int" where
  "effect_deps st = (isLoading st, isComplete st, timeLeft st)"

text \<open>
  A call of \<^verbatim>\<open>handleFinish\<close> suspended at \<^verbatim>\<open>await saveAttempt(...)\<close>: the
  exercises and answers its closure holds, and the index the loop goes on with.
\<close>

record finish_job =
  job_exercises :: "exercise list"
  job_answers :: "answer list"
  job_i :: nat

text \<open>
  The screen: its state as last rendered, the interval if one is installed, with the
  exercises and answers of the render that installed it, the calls of
  \<^verbatim>\<open>handleFinish\<close> in flight, and the attempt log.
\<close>

record mock_world =
  screen :: mock_state
  armed_interval :: "(exercise list \<times> answer list) option"
  pending :: "finish_job list"
  store :: "attempt list"

text \<open>
  A call of \<^verbatim>\<open>handleFinish\<close> runs from index \<open>i\<close> to its next \<^verbatim>\<open>await\<close>: it
  skips the indices whose answer is \<^verbatim>\<open>null\<close>, issues the next write and suspends
  after it (\<open>Some\<close> of the next index), or leaves the loop (\<open>None\<close>).
\<close>

function advance ::
  "(nat \<Rightarrow> int) \<Rightarrow> exercise list \<Rightarrow> answer list \<Rightarrow> nat \<Rightarrow> attempt list
     \<Rightarrow> attempt list \<times> nat option" where
  "advance stamp exs as i rows =
     (if i < length exs
      then (let exercise = exs ! i; answer = answer_at as i in
            if answer \<noteq> Null
            then (saveAttempt stamp rows (exercise_id exercise) answer
                    (answer = Chosen (correct_index exercise)) 0,
                  Some (i + 1))
            else advance stamp exs as (i + 1) rows)
      else (rows, None))"
  by pat_completeness auto
termination
  by (relation "measure (\<lambda>(stamp, exs, as, i, rows). length exs - i)") auto

declare advance.simps [simp del]

text \<open>
  A render with the new state: the effect runs again only if a dependency changed.
\<close>

definition commit :: "mock_state \<Rightarrow> mock_world \<Rightarrow> mock_world" where
  "commit st' w =
     w\<lparr>screen := st',
       armed_interval :=
         (if effect_deps st' = effect_deps (screen w) then armed_interval w
          else if timer_armed st' then Some (exercises st', answers st')
          else None)\<rparr>"

text \<open>
  A call of \<^verbatim>\<open>handleFinish\<close> with the exercises and answers of its closure, up to
  its first \<^verbatim>\<open>await\<close>; \<^verbatim>\<open>setIsComplete(true)\<close> comes after the loop.
\<close>

definition start_finish ::
  "(nat \<Rightarrow> int) \<Rightarrow> exercise list \<Rightarrow> answer list \<Rightarrow> mock_world \<Rightarrow> mock_world" where
  "start_finish stamp exs as w =
     (case advance stamp exs as 0 (store w) of
        (rows, Some i) \<Rightarrow>
          w\<lparr>store := rows,
            pending := pending w @ [\<lparr>job_exercises = exs, job_answers = as, job_i = i\<rparr>]\<rparr>
      | (rows, None) \<Rightarrow> commit ((screen w)\<lparr>isComplete := True\<rparr>) (w\<lparr>store := rows\<rparr>))"

text \<open>The call in flight at position \<open>j\<close> goes on after its awaited write.\<close>

definition resume :: "(nat \<Rightarrow> int) \<Rightarrow> nat \<Rightarrow> mock_world \<Rightarrow> mock_world" where
  "resume stamp j w =
     (if j < length (pending w)
      then (let job = pending w ! j in
            case advance stamp (job_exercises job) (job_answers job) (job_i job) (store w) of
              (rows, Some i) \<Rightarrow>
                w\<lparr>store := rows, pending := (pending w)[j := job\<lparr>job_i := i\<rparr>]\<rparr>
            | (rows, None) \<Rightarrow>
                commit ((screen w)\<lparr>isComplete := True\<rparr>)
                  (w\<lparr>store := rows,
                     pending := take j (pending w) @ drop (Suc j) (pending w)\<rparr>))
      else w)"

text \<open>
  What can happen on the screen: a tap on an option, on a dot of the progress row, on
  next, previous or finish, a firing of the interval, and the continuation of a call in
  flight. The exam is on screen only while \<^verbatim>\<open>!isLoading\<close> and \<^verbatim>\<open>!isComplete\<close>. A
  firing of the interval runs \<^verbatim>\<open>setTimeLeft((prev) => ...)\<close>: at \<open>prev \<le> 1\<close> it
  calls the \<^verbatim>\<open>handleFinish\<close> the interval holds and sets the time left to 0.
\<close>

datatype event = SelectOption int | GoTo nat | Next | Previous | PressFinish | Tick | Resume nat

definition exam_shown :: "mock_state \<Rightarrow> bool" where
  "exam_shown st = (\<not> isLoading st \<and> \<not> isComplete st)"

definition handleNext :: "mock_state \<Rightarrow> mock_state" where
  "handleNext st =
     (if int (currentIndex st) < int (length (exercises st)) - 1
      then st\<lparr>currentIndex := currentIndex st + 1\<rparr> else st)"

definition handlePrevious :: "mock_state \<Rightarrow> mock_state" where
  "handlePrevious st =
     (if currentIndex st > 0 then st\<lparr>currentIndex := currentIndex st - 1\<rparr> else st)"

fun step :: "(nat \<Rightarrow> int) \<Rightarrow> event \<Rightarrow> mock_world \<Rightarrow> mock_world" where
  "step stamp (SelectOption index) w =
     (if exam_shown (screen w) then commit (handleSelectOption index (screen w)) w else w)"
| "step stamp (GoTo index) w =
     (if exam_shown (screen w) \<and> index < length (exercises (screen w))
      then commit ((screen w)\<lparr>currentIndex := index\<rparr>) w else w)"
| "step stamp Next w =
     (if exam_shown (screen w) then commit (handleNext (screen w)) w else w)"
| "step stamp Previous w =
     (if exam_shown (screen w) then commit (handlePrevious (screen w)) w else w)"
| "step stamp PressFinish w =
     (if exam_shown (screen w)
      then start_finish stamp (exercises (screen w)) (answers (screen w)) w else w)"
| "step stamp Tick w =
     (case armed_interval w of
        None \<Rightarrow> w
      | Some (exs, as) \<Rightarrow>
          if timeLeft (screen w) \<le> 1
          then (let w' = start_finish stamp exs as w
                in commit ((screen w')\<lparr>timeLeft := 0\<rparr>) w')
          else commit ((screen w)\<lparr>timeLeft := timeLeft (screen w) - 1\<rparr>) w)"
| "step stamp (Resume j) w = resume stamp j w"

fun run :: "(nat \<Rightarrow> int) \<Rightarrow> event list \<Rightarrow> mock_world \<Rightarrow> mock_world" where
  "run stamp [] w = w"
| "run stamp (e # es) w = run stamp es (step stamp e w)"

text \<open>What \<^verbatim>\<open>handleFinish\<close> passes to \<^verbatim>\<open>saveAttempt\<close> for the exercise at index \<open>i\<close>.\<close>

definition written_row ::
  "exercise list \<Rightarrow> answer list \<Rightarrow> nat \<Rightarrow> int \<times> answer \<times> bool \<times> int" where
  "written_row exs as i =
     (exercise_id (exs ! i), answer_at as i,
      answer_at as i = Chosen (correct_index (exs ! i)), 0)"

section \<open>Minutes studied today\<close>

text \<open>
  Modelled from the spec: \<^verbatim>\<open>getTodayStudyMinutes\<close> of \<^verbatim>\<open>@/db/database\<close> is not among
  the sources. The spec: the sum of the time-spent values of all attempts whose timestamp
  falls within the current local calendar day, \<open>dayStart \<le> created_at < dayEnd\<close>.
  The sum is kept in the unit of the time-spent values.
\<close>

definition getTodayStudyMinutes :: "int \<Rightarrow> int \<Rightarrow> attempt list \<Rightarrow> int" where
  "getTodayStudyMinutes dayStart dayEnd db =
     (\<Sum>a\<leftarrow>filter (\<lambda>a. dayStart \<le> created_at a \<and> created_at a < dayEnd) db.
        time_spent_seconds a)"

section \<open>Quiz (QuizScreen)\<close>

record quiz_state =
  quiz_exercises :: "exercise list"
  quiz_currentIndex :: nat
  selectedIndex :: "int option"
  showResult :: bool
  quiz_correctCount :: nat
  quiz_isComplete :: bool
  startTime :: int

text \<open>\<^verbatim>\<open>if (showResult) return; setSelectedIndex(index);\<close>\<close>

definition quiz_handleSelectOption :: "int \<Rightarrow> quiz_state \<Rightarrow> quiz_state" where
  "quiz_handleSelectOption index st =
     (if showResult st then st else st\<lparr>selectedIndex := Some index\<rparr>)"

text \<open>
  \<^verbatim>\<open>Math.round((Date.now() - startTime) / 1000)\<close>: to the nearest integer, a half
  upwards.
\<close>

definition round_seconds :: "int \<Rightarrow> int" where
  "round_seconds ms = (ms + 500) div 1000"

text \<open>
  \<^verbatim>\<open>handleCheck\<close>, called at time \<open>now\<close>. Its only test is
  \<^verbatim>\<open>if (selectedIndex === null || !currentExercise) return;\<close>
\<close>

definition handleCheck ::
  "(nat \<Rightarrow> int) \<Rightarrow> int \<Rightarrow> quiz_state \<times> attempt list \<Rightarrow> quiz_state \<times> attempt list" where
  "handleCheck stamp now s =
     (case s of (st, db) \<Rightarrow>
        (case selectedIndex st of
           None \<Rightarrow> (st, db)
         | Some sel \<Rightarrow>
             if quiz_currentIndex st < length (quiz_exercises st)
             then (let currentExercise = quiz_exercises st ! quiz_currentIndex st;
                       isCorrect = (sel = correct_index currentExercise);
                       timeSpent = round_seconds (now - startTime st)
                   in (st\<lparr>showResult := True,
                          quiz_correctCount :=
                            (if isCorrect then quiz_correctCount st + 1
                             else quiz_correctCount st)\<rparr>,
                       saveAttempt stamp db (exercise_id currentExercise) (Chosen sel)
                         isCorrect timeSpent))
             else (st, db)))"

definition quiz_handleNext :: "int \<Rightarrow> quiz_state \<Rightarrow> quiz_state" where
  "quiz_handleNext now st =
     (if int (quiz_currentIndex st) < int (length (quiz_exercises st)) - 1
      then st\<lparr>quiz_currentIndex := quiz_currentIndex st + 1, selectedIndex := None,
              showResult := False, startTime := now\<rparr>
      else st\<lparr>quiz_isComplete := True\<rparr>)"

section \<open>Days until the exam (AppProvider)\<close>

record settings =
  exam_date :: "string option"
  daily_minutes_goal :: int
  onboarding_complete :: int

text \<open>
  A \<^verbatim>\<open>Date\<close> is its time value, milliseconds since the epoch in UTC. The local time
  zone of the device is a standard offset and a daylight-saving offset, in
  milliseconds, the latter in force for the instants \<open>dst_from \<le> t < dst_until\<close>
  (one season; a zone without daylight saving has \<open>dst_from = dst_until\<close>).
\<close>

record zone =
  std_offset :: int
  dst_offset :: int
  dst_from :: int
  dst_until :: int

definition msPerDay :: int where
  "msPerDay = 1000 * 60 * 60 * 24"

definition in_dst :: "zone \<Rightarrow> int \<Rightarrow> bool" where
  "in_dst z t = (dst_from z \<le> t \<and> t < dst_until z)"

definition LocalTime :: "zone \<Rightarrow> int \<Rightarrow> int" where
  "LocalTime z t = t + (if in_dst z t then dst_offset z else std_offset z)"

text \<open>
  From local time back to UTC: a local time that occurs twice, when the clocks go
  back, is the earlier instant; one that is skipped is read with the offset before
  the change.
\<close>

definition UTC :: "zone \<Rightarrow> int \<Rightarrow> int" where
  "UTC z l = (if in_dst z (l - dst_offset z) then l - dst_offset z else l - std_offset z)"

text \<open>The local calendar day of an instant, counted from the epoch.\<close>

definition local_day :: "zone \<Rightarrow> int \<Rightarrow> int" where
  "local_day z t = LocalTime z t div msPerDay"

text \<open>\<^verbatim>\<open>d.setHours(0, 0, 0, 0)\<close>: midnight, local time, of the local day of \<open>t\<close>.\<close>

definition setHours0 :: "zone \<Rightarrow> int \<Rightarrow> int" where
  "setHours0 z t = UTC z (local_day z t * msPerDay)"

text \<open>
  \<^verbatim>\<open>Math.ceil(diffTime / (1000 * 60 * 60 * 24))\<close>. The quotient of two integers below
  \<open>2^53\<close> is rounded to a double, which is an integer only if the exact quotient is, so
  the result is the exact ceiling.
\<close>

definition ceil_days :: "int \<Rightarrow> int" where
  "ceil_days diffTime = - ((- diffTime) div msPerDay)"

text \<open>
  \<^verbatim>\<open>daysUntilExam\<close>. \<open>parse\<close> is \<^verbatim>\<open>new Date(string)\<close>: the time value, or \<open>None\<close> for
  an invalid date, whose time value is \<^verbatim>\<open>NaN\<close>; \<open>now\<close> is the time value of
  \<^verbatim>\<open>new Date()\<close>. \<^verbatim>\<open>!settings?.exam_date\<close> holds for no settings, no date and the
  empty string. The result \<open>None\<close> is \<^verbatim>\<open>NaN\<close>: \<^verbatim>\<open>Math.max(0, NaN)\<close>.
\<close>

definition daysUntilExam ::
  "zone \<Rightarrow> (string \<Rightarrow> int option) \<Rightarrow> int \<Rightarrow> settings option \<Rightarrow> int option" where
  "daysUntilExam z parse now st =
     (case st of
        None \<Rightarrow> Some 0
      | Some s \<Rightarrow>
          (case exam_date s of
             None \<Rightarrow> Some 0
           | Some d \<Rightarrow>
               if d = [] then Some 0
               else (case parse d of
                       None \<Rightarrow> None
                     | Some e \<Rightarrow>
                         (let today = setHours0 z now;
                              examDate = setHours0 z e;
                              diffTime = examDate - today;
                              diffDays = ceil_days diffTime
                          in Some (max 0 diffDays)))))"

section \<open>Question answering endpoint (registerRoutes)\<close>

text \<open>
  The JSON body of \<^verbatim>\<open>POST /api/pdf/qa\<close> after parsing; an absent field is \<open>None\<close>.
\<close>

record qa_body =
  question :: "string option"
  contextText :: "string option"
  answerLang :: "string option"

text \<open>
  The messages are \<^verbatim>\<open>Missing question or contextText\<close>,
  \<^verbatim>\<open>answerLang must be 'ar' or 'fr'\<close> and \<^verbatim>\<open>QA failed\<close>.
\<close>

datatype qa_message = Missing_question_or_contextText | AnswerLang_must_be_ar_or_fr | QA_failed

datatype qa_json = Message qa_message | Answer string

datatype lang = Ar | Fr

text \<open>
  What the handler sends upstream: the model name, the system prompt (one fixed text
  per language) and the user content.
\<close>

record qa_request =
  model :: string
  system :: lang
  content :: string

text \<open>
  The upstream call \<^verbatim>\<open>client.responses.create\<close> either throws or returns a response,
  of which the handler reads \<^verbatim>\<open>output_text\<close>, possibly absent.
\<close>

datatype upstream = Throws | Response "string option"

record env =
  OPENAI_API_KEY :: "string option"
  OPENAI_MODEL :: "string option"

text \<open>\<^verbatim>\<open>!v\<close> on an optional string: absent or empty.\<close>

definition falsy :: "string option \<Rightarrow> bool" where
  "falsy v = (case v of None \<Rightarrow> True | Some s \<Rightarrow> s = [])"

definition requireEnv :: "string option \<Rightarrow> string option" where
  "requireEnv v = (if falsy v then None else v)"

definition user_content :: "string \<Rightarrow> string \<Rightarrow> string" where
  "user_content ctx q =
     ''DOCUMENT:'' @ [CHR 0x0A] @ ctx @ [CHR 0x0A, CHR 0x0A] @ ''QUESTION:'' @ [CHR 0x0A] @ q
       @ [CHR 0x0A, CHR 0x0A] @ ''RULES:'' @ [CHR 0x0A] @ ''- Use only the document.''
       @ [CHR 0x0A] @ ''- If not found, say exactly the not-found sentence from system.''
       @ [CHR 0x0A]"

text \<open>
  The request the handler sends upstream: the model of the environment or the default
  one, the system prompt of the answer language, the user content.
\<close>

definition qa_request_of :: "env \<Rightarrow> qa_body \<Rightarrow> qa_request" where
  "qa_request_of e body =
     \<lparr>model = (if falsy (OPENAI_MODEL e) then ''gpt-4o-mini-2024-07-18''
               else the (OPENAI_MODEL e)),
      system = (if answerLang body = Some ''fr'' then Fr else Ar),
      content = user_content (the (contextText body)) (the (question body))\<rparr>"

text \<open>
  The handler: the status and the JSON it answers with. Every exception inside the
  \<^verbatim>\<open>try\<close> block gives \<^verbatim>\<open>500 QA failed\<close>.
\<close>

definition qa_handler :: "env \<Rightarrow> (qa_request \<Rightarrow> upstream) \<Rightarrow> qa_body \<Rightarrow> nat \<times> qa_json" where
  "qa_handler e create body =
     (if falsy (question body) \<or> falsy (contextText body)
      then (400, Message Missing_question_or_contextText)
      else if answerLang body \<noteq> Some ''ar'' \<and> answerLang body \<noteq> Some ''fr''
      then (400, Message AnswerLang_must_be_ar_or_fr)
      else (case requireEnv (OPENAI_API_KEY e) of
              None \<Rightarrow> (500, Message QA_failed)
            | Some apiKey \<Rightarrow>
                (case create (qa_request_of e body) of
                   Throws \<Rightarrow> (500, Message QA_failed)
                 | Response output_text \<Rightarrow>
                     (200, Answer (case output_text of None \<Rightarrow> [] | Some t \<Rightarrow> t)))))"

section \<open>Recommendation engine\<close>



text \<open>The attempt with the greatest timestamp; of two with the same one, the first.\<close>

fun latest :: "attempt list \<Rightarrow> attempt option" where
  "latest [] = None"
| "latest (a # as) =
     (case latest as of
        None \<Rightarrow> Some a
      | Some b \<Rightarrow> if created_at a < created_at b then Some b else Some a)"

definition latestAttempt :: "attempt list \<Rightarrow> exercise \<Rightarrow> attempt option" where
  "latestAttempt attempts e =
     latest (filter (\<lambda>a. attempt_exercise_id a = exercise_id e) attempts)"

definition unattempted :: "attempt list \<Rightarrow> exercise \<Rightarrow> bool" where
  "unattempted attempts e = (latestAttempt attempts e = None)"

definition latest_incorrect :: "attempt list \<Rightarrow> exercise \<Rightarrow> bool" where
  "latest_incorrect attempts e =
     (case latestAttempt attempts e of None \<Rightarrow> False | Some a \<Rightarrow> \<not> is_correct a)"

definition weak :: "attempt list \<Rightarrow> exercise \<Rightarrow> bool" where
  "weak attempts e = (unattempted attempts e \<or> latest_incorrect attempts e)"

definition lessonExercises :: "exercise list \<Rightarrow> lesson \<Rightarrow> exercise list" where
  "lessonExercises exs l = filter (\<lambda>e. exercise_lesson_id e = lesson_id l) exs"

definition weaknessScore :: "exercise list \<Rightarrow> attempt list \<Rightarrow> lesson \<Rightarrow> rat" where
  "weaknessScore exs attempts l =
     of_nat (length (filter (weak attempts) (lessonExercises exs l)))
       / of_nat (length (lessonExercises exs l))"






text \<open>
  The two counts of the score in the words of the spec, stated on the log itself: an
  exercise with no attempt, and an exercise with an incorrect attempt that no attempt
  of the same exercise is later than. \<open>unambiguous_stamps\<close> says that attempts of
  the exercise with the same timestamp agree on correctness (as they do when no two
  have the same timestamp), so that the correctness of its most recent attempt is
  determined.
\<close>

definition never_attempted :: "attempt list \<Rightarrow> exercise \<Rightarrow> bool" where
  "never_attempted attempts e =
     (\<forall>a\<in>set attempts. attempt_exercise_id a \<noteq> exercise_id e)"

definition most_recent_incorrect :: "attempt list \<Rightarrow> exercise \<Rightarrow> bool" where
  "most_recent_incorrect attempts e =
     (\<exists>a\<in>set attempts.
        attempt_exercise_id a = exercise_id e \<and> \<not> is_correct a
        \<and> (\<forall>b\<in>set attempts.
              attempt_exercise_id b = exercise_id e \<longrightarrow> created_at b \<le> created_at a))"

definition unambiguous_stamps :: "attempt list \<Rightarrow> exercise \<Rightarrow> bool" where
  "unambiguous_stamps attempts e =
     (\<forall>a\<in>set attempts. \<forall>b\<in>set attempts.
        attempt_exercise_id a = exercise_id e \<and> attempt_exercise_id b = exercise_id e
        \<and> created_at a = created_at b \<longrightarrow> is_correct a = is_correct b)"

section \<open>Concrete inputs\<close>

text \<open>
  Stores, sessions, zones and requests at which the properties below are evaluated.
\<close>

definition stamp0 :: "nat \<Rightarrow> int" where
  "stamp0 n = 1000 * int n"

definition mk_exercise :: "int \<Rightarrow> exercise" where
  "mk_exercise i = \<lparr>exercise_id = i, exercise_lesson_id = 1, correct_index = 0, difficulty = 1\<rparr>"

definition exam30 :: mock_state where
  "exam30 =
     \<lparr>exercises = map mk_exercise [1..30],
      answers = [Chosen 0, Chosen 1, Chosen 0, Chosen 2, Chosen 0, Chosen 0, Chosen 3,
                 Chosen 0, Chosen 1] @ replicate 21 Null,
      currentIndex = 9, timeLeft = 1, isComplete = False, isLoading = False,
      showReview = False\<rparr>"

definition earlier_log :: "attempt list" where
  "earlier_log =
     [\<lparr>attempt_exercise_id = 5, selected_index = Chosen 1, is_correct = False,
       time_spent_seconds = 42, created_at = 100\<rparr>]"

definition quiz_ready :: quiz_state where
  "quiz_ready =
     \<lparr>quiz_exercises = [mk_exercise 7], quiz_currentIndex = 0, selectedIndex = Some 0,
      showResult = False, quiz_correctCount = 0, quiz_isComplete = False,
      startTime = 0\<rparr>"

definition paris :: zone where
  "paris = \<lparr>std_offset = 3600000, dst_offset = 7200000,
            dst_from = 1743296400000, dst_until = 1761440400000\<rparr>"

definition parse_exam :: "string \<Rightarrow> int option" where
  "parse_exam s = (if s = ''2025-10-30'' then Some 1761782400000 else None)"

definition exam_settings :: settings where
  "exam_settings =
     \<lparr>exam_date = Some ''2025-10-30'', daily_minutes_goal = 60, onboarding_complete = 1\<rparr>"

definition qa_env :: env where
  "qa_env = \<lparr>OPENAI_API_KEY = Some ''sk-test'', OPENAI_MODEL = None\<rparr>"

definition qa_valid_body :: qa_body where
  "qa_valid_body =
     \<lparr>question = Some ''What is the capital?'', contextText = Some ''The capital is Nouakchott.'',
      answerLang = Some ''fr''\<rparr>"

definition silent_upstream :: "qa_request \<Rightarrow> upstream" where
  "silent_upstream r = Response None"

definition picky_upstream :: "qa_request \<Rightarrow> upstream" where
  "picky_upstream r =
     (if system r = Fr \<and> model r = ''gpt-4o-mini-2024-07-18''
      then Response (Some ''Nouakchott'')
      else if system r = Ar then Throws
      else Response None)"

definition lessonL :: lesson where
  "lessonL = \<lparr>lesson_id = 1, subject_id = 1, title = ''L'', is_completed = 0\<rparr>"






definition scenario_exercises :: "exercise list" where
  "scenario_exercises =
     [\<lparr>exercise_id = 11, exercise_lesson_id = 1, correct_index = 0, difficulty = 1\<rparr>,
      \<lparr>exercise_id = 12, exercise_lesson_id = 1, correct_index = 2, difficulty = 1\<rparr>,
      \<lparr>exercise_id = 13, exercise_lesson_id = 1, correct_index = 1, difficulty = 2\<rparr>,
      \<lparr>exercise_id = 14, exercise_lesson_id = 1, correct_index = 3, difficulty = 3\<rparr>,
      \<lparr>exercise_id = 21, exercise_lesson_id = 2, correct_index = 0, difficulty = 1\<rparr>,
      \<lparr>exercise_id = 31, exercise_lesson_id = 3, correct_index = 0, difficulty = 1\<rparr>,
      \<lparr>exercise_id = 32, exercise_lesson_id = 3, correct_index = 1, difficulty = 1\<rparr>]"



definition last_second_world :: mock_world where
  "last_second_world =
     \<lparr>screen = exam30,
      armed_interval = Some (exercises exam30, answers exam30),
      pending = [], store = []\<rparr>"

definition last_second_events :: "event list" where
  "last_second_events = SelectOption 0 # Tick # replicate 9 (Resume 0)"



definition history_attempts :: "attempt list" where
  "history_attempts =
     [\<lparr>attempt_exercise_id = 11, selected_index = Chosen 1, is_correct = False,
       time_spent_seconds = 30, created_at = 2\<rparr>,
      \<lparr>attempt_exercise_id = 12, selected_index = Chosen 0, is_correct = False,
       time_spent_seconds = 8, created_at = 1\<rparr>,
      \<lparr>attempt_exercise_id = 13, selected_index = Chosen 0, is_correct = False,
       time_spent_seconds = 12, created_at = 9\<rparr>,
      \<lparr>attempt_exercise_id = 11, selected_index = Chosen 0, is_correct = True,
       time_spent_seconds = 20, created_at = 5\<rparr>,
      \<lparr>attempt_exercise_id = 12, selected_index = Chosen 2, is_correct = True,
       time_spent_seconds = 8, created_at = 7\<rparr>,
      \<lparr>attempt_exercise_id = 21, selected_index = Chosen 0, is_correct = True,
       time_spent_seconds = 5, created_at = 6\<rparr>,
      \<lparr>attempt_exercise_id = 11, selected_index = Chosen 2, is_correct = False,
       time_spent_seconds = 11, created_at = 3\<rparr>,
      \<lparr>attempt_exercise_id = 12, selected_index = Chosen 1, is_correct = False,
       time_spent_seconds = 9, created_at = 4\<rparr>]"

section \<open>Binary64 arithmetic: properties\<close>













section \<open>Subject progress: properties\<close>






section \<open>Mock exam: properties\<close>

text \<open>
  The finish loop appends to the log, in the order of the exercises, one row per index
  whose answer is not \<^verbatim>\<open>null\<close>, and nothing else.
\<close>

lemma finish_loop_rows:
  "\<exists>new. finish_loop stamp exs as is db = db @ new
      \<and> map row_of new = map (written_row exs as) (filter (\<lambda>i. answer_at as i \<noteq> Null) is)"
proof (induction "is" arbitrary: db)
  case Nil
  then show ?case by simp
next
  case (Cons i "is")
  show ?case
  proof (cases "answer_at as i = Null")
    case True
    then show ?thesis using Cons.IH [of db] by simp
  next
    case False
    let ?db = "saveAttempt stamp db (exercise_id (exs ! i)) (answer_at as i)
                 (answer_at as i = Chosen (correct_index (exs ! i))) 0"
    obtain new where n: "finish_loop stamp exs as is ?db = ?db @ new"
      and m: "map row_of new = map (written_row exs as) (filter (\<lambda>i. answer_at as i \<noteq> Null) is)"
      using Cons.IH [of ?db] by blast
    obtain r where r: "?db = db @ [r]" and rr: "row_of r = written_row exs as i"
      by (simp add: saveAttempt_def row_of_def written_row_def)
    have "finish_loop stamp exs as (i # is) db = db @ (r # new)"
      using False n r by (simp add: Let_def)
    moreover have "map row_of (r # new)
        = map (written_row exs as) (filter (\<lambda>i. answer_at as i \<noteq> Null) (i # is))"
      using False m rr by simp
    ultimately show ?thesis by blast
  qed
qed

lemma foldl_count:
  "foldl (\<lambda>count index. count + (if P index then 1 else 0)) n is
     = n + length (filter P is)"
  by (induction "is" arbitrary: n) simp_all

lemma correctCount_filter:
  "correctCount st =
     length (filter (\<lambda>i. answer_at (answers st) i = Chosen (correct_index (exercises st ! i)))
               [0..<length (exercises st)])"
  unfolding correctCount_def by (simp add: foldl_count)

lemma count_disjoint:
  "(\<And>x. P x \<Longrightarrow> \<not> Q x) \<Longrightarrow> length (filter P xs) + length (filter Q xs) \<le> length xs"
  by (induction xs) auto

lemma correctCount_finish: "correctCount (st\<lparr>isComplete := b\<rparr>) = correctCount st"
  by (simp add: correctCount_def)

lemma loadExercises_answers:
  "answers (loadExercises exercisesList st) = replicate (length exercisesList) Null
   \<and> length (answers (loadExercises exercisesList st))
       = length (exercises (loadExercises exercisesList st))"
  by (simp add: loadExercises_def)

lemma handleSelectOption_in_range:
  "currentIndex st < length (answers st) \<Longrightarrow>
     length (answers (handleSelectOption index st)) = length (answers st)
     \<and> answer_at (answers (handleSelectOption index st)) (currentIndex st) = Chosen index"
  by (simp add: handleSelectOption_def answer_at_def)

text \<open>
  One call of the finish routine, run to its end on the exercises and answers it
  holds: the session is complete, the rows appended are exactly those of the indices
  whose answer is not null, in order, each with the chosen index and its correctness;
  the result counts as correct only the answers equal to the correct index, so every
  unanswered exercise is among the incorrect ones.
\<close>

lemma finish_routine_rows:
  "\<exists>st' new.
     handleFinish stamp (st, db) = (st', db @ new)
     \<and> isComplete st'
     \<and> map row_of new =
         map (written_row (exercises st) (answers st))
           (filter (\<lambda>i. answer_at (answers st) i \<noteq> Null) [0..<length (exercises st)])
     \<and> correctCount st' =
         length (filter (\<lambda>i. answer_at (answers st) i
                               = Chosen (correct_index (exercises st ! i)))
                   [0..<length (exercises st)])
     \<and> correctCount st'
         + length (filter (\<lambda>i. answer_at (answers st) i = Null) [0..<length (exercises st)])
         \<le> length (exercises st)"
proof -
  let ?n = "length (exercises st)"
  obtain new where n: "finish_loop stamp (exercises st) (answers st) [0..<?n] db = db @ new"
    and m: "map row_of new =
         map (written_row (exercises st) (answers st))
           (filter (\<lambda>i. answer_at (answers st) i \<noteq> Null) [0..<?n])"
    using finish_loop_rows by blast
  let ?st' = "st\<lparr>isComplete := True\<rparr>"
  have h: "handleFinish stamp (st, db) = (?st', db @ new)"
    by (simp add: handleFinish_def n)
  have c: "correctCount ?st' =
         length (filter (\<lambda>i. answer_at (answers st) i
                               = Chosen (correct_index (exercises st ! i))) [0..<?n])"
    by (simp add: correctCount_finish correctCount_filter)
  have "length (filter (\<lambda>i. answer_at (answers st) i
                               = Chosen (correct_index (exercises st ! i))) [0..<?n])
        + length (filter (\<lambda>i. answer_at (answers st) i = Null) [0..<?n])
        \<le> length [0..<?n]"
    by (rule count_disjoint) simp
  then have d: "correctCount ?st'
         + length (filter (\<lambda>i. answer_at (answers st) i = Null) [0..<?n]) \<le> ?n"
    using c by simp
  show ?thesis
    using h m c d by (intro exI [of _ ?st'] exI [of _ new]) simp
qed

text \<open>
  At 30 exercises of which the first nine are answered, the call writes nine rows, for
  the exercises 1 to 9.
\<close>

lemma exam30_answered:
  "filter (\<lambda>i. answer_at (answers exam30) i \<noteq> Null) [0..<length (exercises exam30)]
     = [0, 1, 2, 3, 4, 5, 6, 7, 8]"
  by code_simp

lemma exam30_rows:
  "map (written_row (exercises exam30) (answers exam30)) [0, 1, 2, 3, 4, 5, 6, 7, 8]
     = [(1, Chosen 0, True, 0), (2, Chosen 1, False, 0), (3, Chosen 0, True, 0),
        (4, Chosen 2, False, 0), (5, Chosen 0, True, 0), (6, Chosen 0, True, 0),
        (7, Chosen 3, False, 0), (8, Chosen 0, True, 0), (9, Chosen 1, False, 0)]"
  by code_simp

lemma finish_routine_rows_exam30:
  "map row_of (snd (handleFinish stamp0 (exam30, [])))
     = [(1, Chosen 0, True, 0), (2, Chosen 1, False, 0), (3, Chosen 0, True, 0),
        (4, Chosen 2, False, 0), (5, Chosen 0, True, 0), (6, Chosen 0, True, 0),
        (7, Chosen 3, False, 0), (8, Chosen 0, True, 0), (9, Chosen 1, False, 0)]
   \<and> isComplete (fst (handleFinish stamp0 (exam30, [])))"
proof -
  obtain st' new where h: "handleFinish stamp0 (exam30, []) = (st', [] @ new)"
    and c: "isComplete st'"
    and m: "map row_of new =
         map (written_row (exercises exam30) (answers exam30))
           (filter (\<lambda>i. answer_at (answers exam30) i \<noteq> Null)
              [0..<length (exercises exam30)])"
    using finish_routine_rows [of stamp0 exam30 "[]"] by blast
  have "map row_of new =
         map (written_row (exercises exam30) (answers exam30)) [0, 1, 2, 3, 4, 5, 6, 7, 8]"
    using m by (simp only: exam30_answered)
  then show ?thesis
    using h c by (simp only: exam30_rows fst_conv snd_conv append_Nil simp_thms)
qed

text \<open>
  A call in flight, continued to its end with nothing in between, writes what the
  routine run at once writes.
\<close>

lemma advance_finish_loop:
  "finish_loop stamp exs as [i..<length exs] rows =
     (case advance stamp exs as i rows of
        (rows', Some i') \<Rightarrow> finish_loop stamp exs as [i'..<length exs] rows'
      | (rows', None) \<Rightarrow> rows')"
proof (induction stamp exs as i rows rule: advance.induct)
  case (1 stamp exs as i rows)
  show ?case
  proof (cases "i < length exs")
    case False
    then show ?thesis by (simp add: advance.simps [of stamp exs as i rows])
  next
    case True
    then have u: "[i..<length exs] = i # [i + 1..<length exs]"
      by (simp add: upt_rec)
    show ?thesis
    proof (cases "answer_at as i = Null")
      case False
      then show ?thesis
        using True by (simp add: advance.simps [of stamp exs as i rows] u Let_def)
    next
      case n: True
      then show ?thesis
        using True "1.IH" [OF True refl refl]
        by (simp add: advance.simps [of stamp exs as i rows] u Let_def)
    qed
  qed
qed

text \<open>
  Without an interval nothing fires; the render that sets the completion flag
  removes the interval; a firing with more than a second left installs the interval
  anew, with the answers of that render; a tap on an option leaves the interval, and
  the answers it holds, as they were.
\<close>

lemma tick_unarmed: "armed_interval w = None \<Longrightarrow> step stamp Tick w = w"
  by simp

lemma tick_reinstalls:
  assumes "armed_interval w = Some c" and "1 < timeLeft (screen w)"
    and "\<not> isLoading (screen w)" and "\<not> isComplete (screen w)"
  shows "step stamp Tick w =
           w\<lparr>screen := (screen w)\<lparr>timeLeft := timeLeft (screen w) - 1\<rparr>,
             armed_interval := Some (exercises (screen w), answers (screen w))\<rparr>"
  using assms by (cases c) (simp add: commit_def effect_deps_def timer_armed_def)

lemma commit_complete:
  "isComplete st' \<Longrightarrow> \<not> isComplete (screen w) \<Longrightarrow> armed_interval (commit st' w) = None"
  by (simp add: commit_def effect_deps_def timer_armed_def)

lemma select_keeps_interval:
  "armed_interval (step stamp (SelectOption index) w) = armed_interval w"
  by (simp add: commit_def effect_deps_def handleSelectOption_def)

text \<open>
  C6. On timer expiry the claim fails. 30 exercises, the first nine answered when the
  time left became 1 and the interval was installed; within the last second the
  learner answers exercise 10, correctly; then the interval fires. The call of the
  finish routine it makes holds the answers of the render that installed it: it
  writes nine rows, for the exercises 1 to 9, and none for exercise 10, whose answer
  is not null when the session completes and which the result counts as correct (6
  correct of 10 answered).
\<close>

theorem timer_expiry_misses_last_answer:
  "map row_of (store (run stamp0 last_second_events last_second_world))
     = [(1, Chosen 0, True, 0), (2, Chosen 1, False, 0), (3, Chosen 0, True, 0),
        (4, Chosen 2, False, 0), (5, Chosen 0, True, 0), (6, Chosen 0, True, 0),
        (7, Chosen 3, False, 0), (8, Chosen 0, True, 0), (9, Chosen 1, False, 0)]
   \<and> isComplete (screen (run stamp0 last_second_events last_second_world))
   \<and> pending (run stamp0 last_second_events last_second_world) = []
   \<and> answer_at (answers (screen (run stamp0 last_second_events last_second_world))) 9
       = Chosen 0
   \<and> answeredCount (screen (run stamp0 last_second_events last_second_world)) = 10
   \<and> correctCount (screen (run stamp0 last_second_events last_second_world)) = 6"
  by code_simp


text \<open>
  C10. Every row the finish routine of the mock exam appends has a time spent of 0
  seconds, so the sum of the time-spent values of today's attempts is the same after
  the routine as before it.
\<close>

lemma sum_time_zero:
  "\<forall>a\<in>set new. time_spent_seconds a = 0 \<Longrightarrow>
     getTodayStudyMinutes dayStart dayEnd (db @ new) = getTodayStudyMinutes dayStart dayEnd db"
  by (induction new) (simp_all add: getTodayStudyMinutes_def)

lemma rows_time_zero:
  assumes "map row_of new = map (written_row exs as) is"
  shows "\<forall>a\<in>set new. time_spent_seconds a = 0"
proof
  fix a assume "a \<in> set new"
  then have "row_of a \<in> set (map (written_row exs as) is)"
    using assms by (metis imageI set_map)
  then obtain i where "row_of a = written_row exs as i" by auto
  then show "time_spent_seconds a = 0"
    by (simp add: row_of_def written_row_def)
qed

theorem mock_finish_time_spent_zero:
  "\<exists>new. snd (handleFinish stamp (st, db)) = db @ new
      \<and> (\<forall>a\<in>set new. time_spent_seconds a = 0)
      \<and> getTodayStudyMinutes dayStart dayEnd (snd (handleFinish stamp (st, db)))
          = getTodayStudyMinutes dayStart dayEnd db"
proof -
  obtain new where n: "finish_loop stamp (exercises st) (answers st)
                         [0..<length (exercises st)] db = db @ new"
    and m: "map row_of new =
         map (written_row (exercises st) (answers st))
           (filter (\<lambda>i. answer_at (answers st) i \<noteq> Null) [0..<length (exercises st)])"
    using finish_loop_rows by blast
  have z: "\<forall>a\<in>set new. time_spent_seconds a = 0"
    using m by (rule rows_time_zero)
  have s: "snd (handleFinish stamp (st, db)) = db @ new"
    by (simp add: handleFinish_def n)
  show ?thesis
    using s z sum_time_zero [OF z] by auto
qed

theorem mock_finish_time_spent_zero_witness:
  "map time_spent_seconds (snd (handleFinish stamp0 (exam30, earlier_log)))
     = 42 # replicate 9 0
   \<and> getTodayStudyMinutes 0 86400000 (snd (handleFinish stamp0 (exam30, earlier_log))) = 42"
proof -
  obtain new where s: "snd (handleFinish stamp0 (exam30, earlier_log)) = earlier_log @ new"
    and z: "\<forall>a\<in>set new. time_spent_seconds a = 0"
    and g: "getTodayStudyMinutes 0 86400000 (snd (handleFinish stamp0 (exam30, earlier_log)))
          = getTodayStudyMinutes 0 86400000 earlier_log"
    using mock_finish_time_spent_zero [of stamp0 exam30 earlier_log 0 86400000] by blast
  have l: "length (snd (handleFinish stamp0 (exam30, earlier_log))) = 10"
    by code_simp
  have "length new = 9" using l s by (simp add: earlier_log_def)
  then have "map time_spent_seconds new = replicate 9 0"
    using z by (metis (mono_tags, lifting) length_map map_replicate_const map_eq_conv)
  then have a: "map time_spent_seconds (snd (handleFinish stamp0 (exam30, earlier_log)))
     = 42 # replicate 9 0"
    using s by (simp add: earlier_log_def)
  have "getTodayStudyMinutes 0 86400000 earlier_log = 42"
    by (simp add: getTodayStudyMinutes_def earlier_log_def)
  then show ?thesis using a g by simp
qed

section \<open>Quiz: properties\<close>

text \<open>
  C7. The check handler does not test whether the result is already shown. Two calls
  for the same exercise write two rows and count the correct answer twice, both when
  the second call runs on the state the first one left and when it runs on the state
  the first one started from (the same render). The selection handler of the same
  screen does test the flag, and ignores a call once the result is shown.
\<close>

theorem handleCheck_twice_two_rows:
  "map row_of (snd (handleCheck stamp0 4000 (handleCheck stamp0 4000 (quiz_ready, []))))
     = [(7, Chosen 0, True, 4), (7, Chosen 0, True, 4)]
   \<and> quiz_correctCount (fst (handleCheck stamp0 4000 (handleCheck stamp0 4000 (quiz_ready, []))))
     = 2
   \<and> map row_of (snd (handleCheck stamp0 4000
                        (quiz_ready, snd (handleCheck stamp0 4000 (quiz_ready, [])))))
     = [(7, Chosen 0, True, 4), (7, Chosen 0, True, 4)]
   \<and> showResult (fst (handleCheck stamp0 4000 (quiz_ready, [])))
   \<and> quiz_handleSelectOption 1 (fst (handleCheck stamp0 4000 (quiz_ready, [])))
     = fst (handleCheck stamp0 4000 (quiz_ready, []))"
  by (simp add: handleCheck_def quiz_ready_def saveAttempt_def row_of_def mk_exercise_def
        round_seconds_def quiz_handleSelectOption_def Let_def)

section \<open>Days until the exam: properties\<close>

text \<open>
  In a zone without daylight saving the two midnights are a whole number of days apart
  and the result is the difference of the local calendar days, or 0 if that is negative.
  With no exam date the result is 0, and a result that is a number is never negative.
\<close>

lemma ceil_days_multiple: "ceil_days (k * msPerDay) = k"
  by (simp add: ceil_days_def msPerDay_def)

lemma setHours0_no_dst:
  "dst_from z = dst_until z \<Longrightarrow> setHours0 z t = local_day z t * msPerDay - std_offset z"
  by (simp add: setHours0_def UTC_def in_dst_def)

lemma daysUntilExam_no_dst:
  assumes "dst_from z = dst_until z" and "exam_date s = Some d" and "d \<noteq> []"
    and "parse d = Some e"
  shows "daysUntilExam z parse now (Some s) = Some (max 0 (local_day z e - local_day z now))"
proof -
  have "setHours0 z e - setHours0 z now = (local_day z e - local_day z now) * msPerDay"
    using assms(1) by (simp add: setHours0_no_dst algebra_simps)
  then have "ceil_days (setHours0 z e - setHours0 z now) = local_day z e - local_day z now"
    by (simp only: ceil_days_multiple)
  then show ?thesis
    using assms(2-4) by (simp add: daysUntilExam_def Let_def)
qed

lemma daysUntilExam_absent:
  "daysUntilExam z parse now None = Some 0"
  "exam_date s = None \<Longrightarrow> daysUntilExam z parse now (Some s) = Some 0"
  "exam_date s = Some [] \<Longrightarrow> daysUntilExam z parse now (Some s) = Some 0"
  by (simp_all add: daysUntilExam_def)

lemma daysUntilExam_nonneg: "daysUntilExam z parse now st = Some n \<Longrightarrow> 0 \<le> n"
  by (auto simp: daysUntilExam_def Let_def split: option.splits if_splits)

text \<open>
  C4. In a zone with daylight saving the claim fails when the clocks go back between
  today and the exam. Paris, 20 October 2025, 10:30 local time; the exam date
  \<^verbatim>\<open>2025-10-30\<close> is 10 calendar days ahead. Local midnight of 20 October is
  22:00 UTC the day before, local midnight of 30 October is 23:00 UTC the day before:
  10 days and one hour apart, and the ceiling of the quotient is 11.
\<close>

theorem daysUntilExam_dst_off_by_one:
  "daysUntilExam paris parse_exam 1760949000000 (Some exam_settings) = Some 11
   \<and> local_day paris 1761782400000 - local_day paris 1760949000000 = 10
   \<and> setHours0 paris 1761782400000 = 1761778800000
   \<and> setHours0 paris 1760949000000 = 1760911200000"
  by (simp add: daysUntilExam_def exam_settings_def parse_exam_def paris_def setHours0_def
        UTC_def local_day_def LocalTime_def in_dst_def msPerDay_def ceil_days_def Let_def)

section \<open>Question answering endpoint: properties\<close>

text \<open>
  C9, as stated, fails: with valid fields and an upstream response that carries no
  output text, the handler answers 200 with the empty string.
\<close>

theorem qa_nonempty_answer_counterexample:
  "qa_handler qa_env silent_upstream qa_valid_body = (200, Answer [])"
  by (simp add: qa_handler_def qa_env_def qa_valid_body_def silent_upstream_def falsy_def
        requireEnv_def Let_def)

text \<open>
  C9, amended. The handler answers 400 when the question or the context text is
  absent or empty, and 400 when the answer language is absent or anything but
  \<^verbatim>\<open>ar\<close> or \<^verbatim>\<open>fr\<close>. With valid fields it answers 500 when the API key is not
  set or the upstream call, on the request the handler sends, throws, and otherwise
  200 with the output text of the upstream response to that request, the empty string
  when the response has none.
\<close>

theorem qa_handler_outcomes:
  "(falsy (question body) \<or> falsy (contextText body)
      \<longrightarrow> qa_handler e create body = (400, Message Missing_question_or_contextText))
   \<and> (\<not> falsy (question body) \<and> \<not> falsy (contextText body)
        \<and> answerLang body \<noteq> Some ''ar'' \<and> answerLang body \<noteq> Some ''fr''
      \<longrightarrow> qa_handler e create body = (400, Message AnswerLang_must_be_ar_or_fr))
   \<and> (\<not> falsy (question body) \<and> \<not> falsy (contextText body)
        \<and> (answerLang body = Some ''ar'' \<or> answerLang body = Some ''fr'')
      \<longrightarrow> (falsy (OPENAI_API_KEY e) \<longrightarrow> qa_handler e create body = (500, Message QA_failed))
        \<and> (\<not> falsy (OPENAI_API_KEY e) \<longrightarrow>
             qa_handler e create body =
               (case create (qa_request_of e body) of
                  Throws \<Rightarrow> (500, Message QA_failed)
                | Response None \<Rightarrow> (200, Answer [])
                | Response (Some t) \<Rightarrow> (200, Answer t))))"
  by (auto simp: qa_handler_def requireEnv_def falsy_def split: option.splits upstream.splits)

text \<open>
  An upstream that answers by the request: the French request of the valid body is
  answered, the Arabic one throws, and the two invalid bodies never reach it.
\<close>

theorem qa_handler_outcomes_witness:
  "qa_handler qa_env picky_upstream qa_valid_body = (200, Answer ''Nouakchott'')
   \<and> qa_handler qa_env picky_upstream (qa_valid_body\<lparr>answerLang := Some ''ar''\<rparr>)
       = (500, Message QA_failed)
   \<and> qa_handler qa_env picky_upstream (qa_valid_body\<lparr>answerLang := Some ''de''\<rparr>)
       = (400, Message AnswerLang_must_be_ar_or_fr)
   \<and> qa_handler qa_env picky_upstream (qa_valid_body\<lparr>answerLang := None\<rparr>)
       = (400, Message AnswerLang_must_be_ar_or_fr)
   \<and> qa_handler qa_env picky_upstream (qa_valid_body\<lparr>question := None\<rparr>)
       = (400, Message Missing_question_or_contextText)"
  using qa_handler_outcomes [of qa_valid_body qa_env picky_upstream]
    qa_handler_outcomes [of "qa_valid_body\<lparr>answerLang := Some ''ar''\<rparr>" qa_env picky_upstream]
    qa_handler_outcomes [of "qa_valid_body\<lparr>answerLang := Some ''de''\<rparr>" qa_env picky_upstream]
    qa_handler_outcomes [of "qa_valid_body\<lparr>answerLang := None\<rparr>" qa_env picky_upstream]
    qa_handler_outcomes [of "qa_valid_body\<lparr>question := None\<rparr>" qa_env picky_upstream]
  by (simp add: qa_env_def qa_valid_body_def picky_upstream_def falsy_def qa_request_of_def)

section \<open>Recommendation engine: properties\<close>

text \<open>
  The most recent attempt is an attempt of the exercise with the greatest timestamp; an
  exercise is unattempted exactly when the log holds no attempt of it.
\<close>

lemma latest_None: "latest as = None \<longleftrightarrow> as = []"
  by (induction as) (auto split: option.splits)

lemma latest_greatest:
  "latest as = Some a \<Longrightarrow> a \<in> set as \<and> (\<forall>b\<in>set as. created_at b \<le> created_at a)"
proof (induction as arbitrary: a)
  case Nil
  then show ?case by simp
next
  case (Cons x xs)
  show ?case
  proof (cases "latest xs")
    case None
    then have "xs = []" by (simp add: latest_None)
    then show ?thesis using Cons.prems by simp
  next
    case (Some b)
    from Cons.IH [OF Some] have b: "b \<in> set xs" "\<forall>c\<in>set xs. created_at c \<le> created_at b"
      by simp_all
    show ?thesis
    proof (cases "created_at x < created_at b")
      case True
      then have "a = b" using Cons.prems Some by simp
      then show ?thesis using b True by auto
    next
      case False
      then have "a = x" using Cons.prems Some by simp
      then show ?thesis using b False by fastforce
    qed
  qed
qed

lemma unattempted_iff:
  "unattempted attempts e \<longleftrightarrow> (\<forall>a\<in>set attempts. attempt_exercise_id a \<noteq> exercise_id e)"
  by (auto simp: unattempted_def latestAttempt_def latest_None filter_empty_conv)

lemma weak_split:
  "length (filter (weak attempts) xs)
     = length (filter (unattempted attempts) xs) + length (filter (latest_incorrect attempts) xs)"
proof (induction xs)
  case Nil
  then show ?case by simp
next
  case (Cons x xs)
  have "\<not> (unattempted attempts x \<and> latest_incorrect attempts x)"
    by (simp add: unattempted_def latest_incorrect_def split: option.splits)
  then show ?case using Cons by (auto simp: weak_def)
qed

lemma weaknessScore_bounds:
  "0 \<le> weaknessScore exs attempts l \<and> weaknessScore exs attempts l \<le> 1"
proof -
  have "(of_nat (length (filter (weak attempts) (lessonExercises exs l))) :: rat)
          \<le> of_nat (length (lessonExercises exs l))"
    by (simp only: of_nat_le_iff length_filter_le)
  then show ?thesis
    by (simp add: weaknessScore_def divide_le_eq_1)
qed



text \<open>
  When attempts of an exercise with the same timestamp agree on correctness, the
  attempt the engine takes as the latest has the correctness of the most recent
  attempt of the log, the one no other attempt of the exercise is later than.
\<close>

lemma latest_incorrect_iff:
  assumes "unambiguous_stamps attempts e"
  shows "latest_incorrect attempts e \<longleftrightarrow> most_recent_incorrect attempts e"
proof
  let ?as = "filter (\<lambda>a. attempt_exercise_id a = exercise_id e) attempts"
  assume "latest_incorrect attempts e"
  then obtain a where a: "latest ?as = Some a" "\<not> is_correct a"
    by (auto simp: latest_incorrect_def latestAttempt_def split: option.splits)
  from latest_greatest [OF a(1)]
  have "a \<in> set ?as" "\<forall>b\<in>set ?as. created_at b \<le> created_at a" by simp_all
  then show "most_recent_incorrect attempts e"
    using a(2) unfolding most_recent_incorrect_def by auto
next
  let ?as = "filter (\<lambda>a. attempt_exercise_id a = exercise_id e) attempts"
  assume "most_recent_incorrect attempts e"
  then obtain a where a: "a \<in> set ?as" "\<not> is_correct a"
      "\<forall>b\<in>set ?as. created_at b \<le> created_at a"
    unfolding most_recent_incorrect_def by auto
  then have "?as \<noteq> []" by (metis empty_iff empty_set)
  then obtain a' where a': "latest ?as = Some a'"
    using latest_None [of ?as] by (cases "latest ?as") auto
  from latest_greatest [OF a']
  have m: "a' \<in> set ?as" "\<forall>b\<in>set ?as. created_at b \<le> created_at a'" by simp_all
  have "created_at a = created_at a'"
    using a(1,3) m by (meson order_antisym)
  moreover have "a \<in> set attempts" "a' \<in> set attempts"
    "attempt_exercise_id a = exercise_id e" "attempt_exercise_id a' = exercise_id e"
    using a(1) m(1) by simp_all
  ultimately have "is_correct a = is_correct a'"
    using assms unfolding unambiguous_stamps_def by blast
  then show "latest_incorrect attempts e"
    using a' a(2) by (simp add: latest_incorrect_def latestAttempt_def)
qed

lemma unattempted_never: "unattempted attempts e \<longleftrightarrow> never_attempted attempts e"
  by (simp add: unattempted_iff never_attempted_def)

lemma weak_count_most_recent:
  assumes "\<forall>e\<in>set es. unambiguous_stamps attempts e"
  shows "length (filter (weak attempts) es)
           = length (filter (never_attempted attempts) es)
             + length (filter (most_recent_incorrect attempts) es)"
proof -
  have "filter (latest_incorrect attempts) es = filter (most_recent_incorrect attempts) es"
    using assms by (intro filter_cong refl) (simp add: latest_incorrect_iff)
  moreover have "filter (unattempted attempts) es = filter (never_attempted attempts) es"
    by (intro filter_cong refl) (simp add: unattempted_never)
  ultimately show ?thesis by (simp add: weak_split)
qed

text \<open>
  C1. For a lesson with at least one exercise the weakness score lies between 0 and 1,
  and it is 1 when none of its exercises has an attempt. When attempts of an exercise
  with the same timestamp agree on correctness (in particular when no two have the
  same timestamp), the score is the number of its exercises without
  attempt plus the number of those whose most recent attempt, by timestamp, is
  incorrect, divided by the number of its exercises; so a lesson of 4 exercises with
  one incorrect most recent attempt and one exercise never attempted scores one half.
\<close>

theorem weakness_score_most_recent:
  assumes "lessonExercises exs l \<noteq> []"
  shows "0 \<le> weaknessScore exs attempts l \<and> weaknessScore exs attempts l \<le> 1
         \<and> ((\<forall>e\<in>set (lessonExercises exs l). never_attempted attempts e)
              \<longrightarrow> weaknessScore exs attempts l = 1)
         \<and> ((\<forall>e\<in>set (lessonExercises exs l). unambiguous_stamps attempts e)
              \<longrightarrow> weaknessScore exs attempts l =
                    (of_nat (length (filter (never_attempted attempts) (lessonExercises exs l)))
                     + of_nat (length (filter (most_recent_incorrect attempts)
                                         (lessonExercises exs l))))
                    / of_nat (length (lessonExercises exs l))
                \<and> (length (lessonExercises exs l) = 4
                     \<and> length (filter (most_recent_incorrect attempts)
                                 (lessonExercises exs l)) = 1
                     \<and> length (filter (never_attempted attempts) (lessonExercises exs l)) = 1
                     \<longrightarrow> weaknessScore exs attempts l = 1 / 2))"
proof -
  let ?es = "lessonExercises exs l"
  have one: "weaknessScore exs attempts l = 1"
    if "\<forall>e\<in>set ?es. never_attempted attempts e"
  proof -
    have "\<forall>e\<in>set ?es. weak attempts e"
      using that by (simp add: weak_def unattempted_never)
    then have "filter (weak attempts) ?es = ?es" by (simp add: filter_id_conv)
    then show ?thesis using assms by (simp add: weaknessScore_def)
  qed
  have f: "weaknessScore exs attempts l =
           (of_nat (length (filter (never_attempted attempts) ?es))
            + of_nat (length (filter (most_recent_incorrect attempts) ?es)))
           / of_nat (length ?es)"
    if "\<forall>e\<in>set ?es. unambiguous_stamps attempts e"
    using weak_count_most_recent [OF that] by (simp add: weaknessScore_def)
  have half: "weaknessScore exs attempts l = 1 / 2"
    if "\<forall>e\<in>set ?es. unambiguous_stamps attempts e"
      and "length ?es = 4 \<and> length (filter (most_recent_incorrect attempts) ?es) = 1
          \<and> length (filter (never_attempted attempts) ?es) = 1"
    using f [OF that(1)] that(2) by simp
  show ?thesis
    using weaknessScore_bounds [of exs attempts l] one f half by blast
qed

text \<open>
  The scenario of the spec on a log in which the most recent attempt of an exercise is
  neither its first nor its last row nor its oldest: of the four exercises of lesson
  L, two have a correct most recent attempt after incorrect older ones, one has an
  incorrect one, one has none.
\<close>

lemma history_facts:
  "lessonExercises scenario_exercises lessonL \<noteq> []"
  "\<forall>e\<in>set (lessonExercises scenario_exercises lessonL). unambiguous_stamps history_attempts e"
  "length (lessonExercises scenario_exercises lessonL) = 4"
  "length (filter (most_recent_incorrect history_attempts)
             (lessonExercises scenario_exercises lessonL)) = 1"
  "length (filter (never_attempted history_attempts)
             (lessonExercises scenario_exercises lessonL)) = 1"
  by code_simp+

theorem weakness_score_most_recent_witness:
  "lessonExercises scenario_exercises lessonL \<noteq> []
   \<and> weaknessScore scenario_exercises history_attempts lessonL = 1 / 2"
  using weakness_score_most_recent [of scenario_exercises lessonL history_attempts]
  by (simp add: history_facts)
















end
